theory Spec2Isabelle
  imports
    Complex_Main
    "HOL-Library.Char_ord"
    "HOL-Library.List_Lexorder"
    "HOL-Library.Multiset"
begin

section \<open>Text primitives of the Python runtime\<close>

text \<open>
  Strings are \<^typ>\<open>string\<close>, that is lists of 8-bit characters; the model covers ASCII
  text. The primitives below are the ASCII behaviour of \<^verbatim>\<open>str.isspace\<close>,
  \<^verbatim>\<open>str.lower\<close>, \<^verbatim>\<open>str.strip\<close>, \<^verbatim>\<open>str.split\<close> (no argument) and of the regular
  expression class \<^verbatim>\<open>\w\<close>.
\<close>

definition is_space :: "char \<Rightarrow> bool" where
  "is_space c = (c \<in> set [CHR 0x09, CHR 0x0A, CHR 0x0B, CHR 0x0C, CHR 0x0D,
                            CHR 0x1C, CHR 0x1D, CHR 0x1E, CHR 0x1F, CHR '' ''])"

definition is_word_char :: "char \<Rightarrow> bool" where
  "is_word_char c =
     (c \<in> set ''abcdefghijklmnopqrstuvwxyzABCDEFGHIJKLMNOPQRSTUVWXYZ0123456789_'')"

definition lower_char :: "char \<Rightarrow> char" where
  "lower_char c =
     (case map_of (zip ''ABCDEFGHIJKLMNOPQRSTUVWXYZ'' ''abcdefghijklmnopqrstuvwxyz'') c of
        Some d \<Rightarrow> d
      | None \<Rightarrow> c)"

definition py_lower :: "string \<Rightarrow> string" where
  "py_lower s = map lower_char s"

definition py_strip :: "string \<Rightarrow> string" where
  "py_strip s = rev (dropWhile is_space (rev (dropWhile is_space s)))"

fun split_acc :: "string \<Rightarrow> string \<Rightarrow> string list" where
  "split_acc cur [] = (if cur = [] then [] else [cur])"
| "split_acc cur (c # cs) =
     (if is_space c then (if cur = [] then split_acc [] cs else cur # split_acc [] cs)
      else split_acc (cur @ [c]) cs)"

definition py_split :: "string \<Rightarrow> string list" where
  "py_split s = split_acc [] s"

text \<open>\<^verbatim>\<open>str(x)\<close> of a cell that holds a string or nothing (\<^verbatim>\<open>None\<close>).\<close>

definition py_str :: "string option \<Rightarrow> string" where
  "py_str v = (case v of None \<Rightarrow> ''None'' | Some s \<Rightarrow> s)"



section \<open>The regular expressions the matcher builds\<close>

text \<open>
  The fragment of Python's \<^verbatim>\<open>re\<close> that the two patterns of the source use, matched with
  \<^verbatim>\<open>re.IGNORECASE\<close>: a literal (what \<^verbatim>\<open>re.escape(word)\<close> denotes), the negative
  lookbehind \<^verbatim>\<open>(?<!\w)\<close>, the negative lookahead \<^verbatim>\<open>(?!\w)\<close>, the word boundary
  \<^verbatim>\<open>\b\<close>, sequence, alternation and the optional group.
\<close>

datatype regex =
    Lit string
  | NotAfterWord
  | NotBeforeWord
  | WordBoundary
  | Seq regex regex
  | Alt regex regex
  | Opt regex

definition word_before :: "string \<Rightarrow> nat \<Rightarrow> bool" where
  "word_before t i = (0 < i \<and> i \<le> length t \<and> is_word_char (t ! (i - 1)))"

definition word_at :: "string \<Rightarrow> nat \<Rightarrow> bool" where
  "word_at t i = (i < length t \<and> is_word_char (t ! i))"

text \<open>
  \<open>ends r t i\<close>: the positions at which a match of \<open>r\<close> that starts at position \<open>i\<close> of
  \<open>t\<close> can end, in the order in which the backtracking matcher tries them.
\<close>

fun ends :: "regex \<Rightarrow> string \<Rightarrow> nat \<Rightarrow> nat list" where
  "ends (Lit w) t i =
     (if map lower_char (take (length w) (drop i t)) = map lower_char w
      then [i + length w] else [])"
| "ends NotAfterWord t i = (if word_before t i then [] else [i])"
| "ends NotBeforeWord t i = (if word_at t i then [] else [i])"
| "ends WordBoundary t i = (if word_before t i \<noteq> word_at t i then [i] else [])"
| "ends (Seq r s) t i = concat (map (ends s t) (ends r t i))"
| "ends (Alt r s) t i = ends r t i @ ends s t i"
| "ends (Opt r) t i = ends r t i @ [i]"

text \<open>\<^verbatim>\<open>re.search\<close> as a truth value: some start position admits a match.\<close>

definition re_search :: "regex \<Rightarrow> string \<Rightarrow> bool" where
  "re_search r t = list_ex (\<lambda>i. ends r t i \<noteq> []) [0..<Suc (length t)]"

definition re_escape :: "string \<Rightarrow> regex" where
  "re_escape word = Lit word"

text \<open>The group \<^verbatim>\<open>(?:ing|ed|er|s|ly)\<close>.\<close>

definition suffix_group :: regex where
  "suffix_group = Alt (Lit ''ing'') (Alt (Lit ''ed'') (Alt (Lit ''er'') (Alt (Lit ''s'') (Lit ''ly''))))"

text \<open>
  The pattern built for one candidate word, in \<^verbatim>\<open>has_keyword_match\<close> and in
  \<^verbatim>\<open>highlight_keywords_in_text\<close> alike:
  \<^verbatim>\<open>(?<!\w) + re.escape(word) + (?:ing|ed|er|s|ly)?\b\<close> for a word of four characters or
  more, \<^verbatim>\<open>(?<!\w) + re.escape(word) + (?!\w)\<close> for a shorter one.
\<close>

definition pattern :: "string \<Rightarrow> regex" where
  "pattern word =
     (if 4 \<le> length word
      then Seq NotAfterWord (Seq (re_escape word) (Seq (Opt suffix_group) WordBoundary))
      else Seq NotAfterWord (Seq (re_escape word) NotBeforeWord))"

section \<open>Posts\<close>

text \<open>
  One row of the data frame. A title may be missing (\<^verbatim>\<open>None\<close>/\<^verbatim>\<open>NaN\<close>);
  \<open>created_time\<close> is the formatted timestamp \<^verbatim>\<open>YYYY-MM-DD HH:MM:SS\<close>, compared as a
  string; \<open>created_utc\<close> is the numeric epoch, when present.
\<close>

record post =
  post_id :: string
  title :: "string option"
  body :: string
  author :: string
  created_time :: string
  created_utc :: "real option"

section \<open>The matcher (\<^verbatim>\<open>has_keyword_match\<close>)\<close>

definition stop_words :: "string set" where
  "stop_words = set [''and'', ''or'', ''but'', ''in'', ''on'', ''at'', ''to'', ''for'', ''of'',
     ''with'', ''by'', ''is'', ''are'', ''was'', ''were'', ''be'', ''a'', ''an'', ''this'',
     ''that'', ''it'', ''he'', ''she'']"

text \<open>
  What one keyword adds to the candidate set: its stripped lowercase form when that has
  two characters or more, and then each of its whitespace-separated words of two
  characters or more.
\<close>

definition keyword_candidates :: "string \<Rightarrow> string list" where
  "keyword_candidates keyword =
     (let k = py_strip keyword in
      if 2 \<le> length k
      then py_lower k # filter (\<lambda>word. 2 \<le> length word) (py_split (py_lower k))
      else [])"

text \<open>The candidate set of the age keywords: no stop word is removed on this path.\<close>

definition age_words_to_highlight :: "string list \<Rightarrow> string set" where
  "age_words_to_highlight keywords = set (concat (map keyword_candidates keywords))"

text \<open>The candidate set of the free-text keywords, stop words removed.\<close>

definition words_to_highlight :: "string list \<Rightarrow> string set" where
  "words_to_highlight keywords =
     set (filter (\<lambda>word. word \<notin> stop_words \<and> 2 \<le> length word)
            (concat (map keyword_candidates keywords)))"

text \<open>The loop over the candidate set that stops at the first hit.\<close>

definition any_word_matches :: "string set \<Rightarrow> string \<Rightarrow> bool" where
  "any_word_matches ws text = (\<exists>word\<in>ws. re_search (pattern word) text)"

definition regular_match :: "string list \<Rightarrow> string \<Rightarrow> bool" where
  "regular_match current_keywords full_text =
     (current_keywords \<noteq> [] \<and> any_word_matches (words_to_highlight current_keywords) full_text)"

definition age_match :: "string list \<Rightarrow> string \<Rightarrow> bool" where
  "age_match age_keywords title_text =
     (age_keywords \<noteq> [] \<and> any_word_matches (age_words_to_highlight age_keywords) title_text)"

definition full_text :: "post \<Rightarrow> string" where
  "full_text row = py_str (title row) @ '' '' @ body row"

definition title_text :: "post \<Rightarrow> string" where
  "title_text row = py_str (title row)"

definition has_keyword_match :: "string list \<Rightarrow> string list \<Rightarrow> post \<Rightarrow> bool" where
  "has_keyword_match current_keywords age_keywords row =
     (if current_keywords \<noteq> [] \<and> age_keywords \<noteq> []
      then regular_match current_keywords (full_text row) \<and> age_match age_keywords (title_text row)
      else if age_keywords \<noteq> [] \<and> current_keywords = []
      then age_match age_keywords (title_text row)
      else regular_match current_keywords (full_text row))"


subsection \<open>The acceptance conditions as the specification words them\<close>

definition word_boundary :: "string \<Rightarrow> nat \<Rightarrow> bool" where
  "word_boundary t i = (word_before t i \<noteq> word_at t i)"

text \<open>
  Following the specification: a word of four characters or more matches at an
  occurrence (ignoring case) that is not preceded by a word character, optionally followed
  by exactly one of the suffixes ing, ed, er, s, ly, and ending at a word boundary.
\<close>

definition prefix_word_accepts :: "string \<Rightarrow> string \<Rightarrow> bool" where
  "prefix_word_accepts word t =
     (\<exists>i\<in>set [0..<Suc (length t)].
        \<not> word_before t i \<and>
        py_lower (take (length word) (drop i t)) = py_lower word \<and>
        (\<exists>s\<in>set ['''', ''ing'', ''ed'', ''er'', ''s'', ''ly''].
           py_lower (take (length s) (drop (i + length word) t)) = s \<and>
           word_boundary t (i + length word + length s)))"

text \<open>
  Following the specification: a word of fewer than four characters matches only as a
  standalone token, with no word character next to it on either side (ignoring case).
\<close>

definition whole_word_accepts :: "string \<Rightarrow> string \<Rightarrow> bool" where
  "whole_word_accepts word t =
     (\<exists>i\<in>set [0..<Suc (length t)].
        \<not> word_before t i \<and>
        py_lower (take (length word) (drop i t)) = py_lower word \<and>
        \<not> word_at t (i + length word))"

section \<open>Deduplication (\<^verbatim>\<open>filter_deleted_and_deduplicate_users\<close>)\<close>

text \<open>
  \<^verbatim>\<open>DataFrame.sort_values(col, ascending=False)\<close>: pandas reverses the rows, sorts them
  in ascending order and reverses the result. The order of rows with equal values is left
  to the sorting algorithm of the library; the model takes that algorithm to be stable, so
  that such rows stay in input order (\<^const>\<open>sort_key\<close> is a stable insertion sort).
  \<^verbatim>\<open>sort_values(col, ascending=True)\<close> is the ascending sort itself.
\<close>

definition sort_values_desc :: "('a \<Rightarrow> 'k::linorder) \<Rightarrow> 'a list \<Rightarrow> 'a list" where
  "sort_values_desc col df = rev (sort_key col (rev df))"

definition sort_values_asc :: "('a \<Rightarrow> 'k::linorder) \<Rightarrow> 'a list \<Rightarrow> 'a list" where
  "sort_values_asc col df = sort_key col df"






section \<open>Sorting the results (\<^verbatim>\<open>sort_results\<close>)\<close>

definition get_sort_key :: "string option \<Rightarrow> string" where
  "get_sort_key t =
     (case t of
        None \<Rightarrow> ''''
      | Some s \<Rightarrow>
          (let title_str = py_strip s in
           if take 1 title_str = ''['' \<and> 1 < length title_str
           then py_lower (tl title_str)
           else py_lower title_str))"

definition sort_results :: "post list \<Rightarrow> string \<Rightarrow> post list" where
  "sort_results df sort_option =
     (if df = [] then df
      else if sort_option = ''Date Posted'' then sort_values_desc created_time df
      else if sort_option = ''Title Alphabetically''
      then sort_values_asc (\<lambda>p. get_sort_key (title p)) df
      else df)"

section \<open>The fetch loop (\<^verbatim>\<open>RedditPenpalsFetcher.fetch_penpals_posts\<close>)\<close>

text \<open>
  The listing endpoint is a parameter: \<open>fetch_batch n limit after\<close> is what the \<open>n\<close>-th
  call of \<^verbatim>\<open>_fetch_batch\<close> returns for the batch size \<open>limit\<close> and the cursor \<open>after\<close>,
  a batch of posts and the next cursor (a failed request is the empty batch with no cursor).
  The loop returns the posts collected and the requests it issued, each as its batch size and
  cursor.
\<close>

type_synonym 'a listing = "nat \<Rightarrow> nat \<Rightarrow> string option \<Rightarrow> 'a list \<times> string option"

function fetch_loop ::
  "'a listing \<Rightarrow> nat \<Rightarrow> 'a list \<Rightarrow> string option \<Rightarrow> (nat \<times> string option) list
     \<Rightarrow> 'a list \<times> (nat \<times> string option) list" where
  "fetch_loop fetch_batch total_posts all_posts after requests =
     (if length all_posts < total_posts then
        (let remaining = total_posts - length all_posts;
             batch_size = min remaining 100;
             batch = fetch_batch (length requests) batch_size after
         in if fst batch = [] then (all_posts, requests @ [(batch_size, after)])
            else fetch_loop fetch_batch total_posts (all_posts @ fst batch) (snd batch)
                   (requests @ [(batch_size, after)]))
      else (all_posts, requests))"
  by pat_completeness auto
termination
  by (relation "measure (\<lambda>(fetch_batch, total_posts, all_posts, after, requests).
        total_posts - length all_posts)") (auto simp: neq_Nil_conv)

declare fetch_loop.simps [simp del]

definition fetch_penpals_posts ::
  "string option \<Rightarrow> 'a listing \<Rightarrow> nat \<Rightarrow> 'a list \<times> (nat \<times> string option) list" where
  "fetch_penpals_posts access_token fetch_batch total_posts =
     (if access_token = None \<or> access_token = Some '''' then ([], [])
      else
        let result = fetch_loop fetch_batch total_posts [] None []
        in (take total_posts (fst result), snd result))"

section \<open>Pagination (\<^verbatim>\<open>display_subreddit_results\<close>)\<close>







section \<open>The recency filter (\<^verbatim>\<open>filter_posts_by_recency\<close>)\<close>

text \<open>
  A point in time is a number of microseconds. The two library parsers are parameters:
  \<open>strptime s\<close> is \<^verbatim>\<open>datetime.strptime(s, '%Y-%m-%d %H:%M:%S')\<close> and \<open>fromtimestamp x\<close>
  is \<^verbatim>\<open>datetime.fromtimestamp(float(x))\<close>, each \<open>None\<close> where the call raises.
\<close>

type_synonym datetime = int

datatype date_field = NoDate | DateStr string | DateNum real

text \<open>\<^verbatim>\<open>row.get('created_time') or row.get('created_utc')\<close>: the empty string is falsy.\<close>

definition date_field_of :: "post \<Rightarrow> date_field" where
  "date_field_of row =
     (if created_time row \<noteq> [] then DateStr (created_time row)
      else (case created_utc row of None \<Rightarrow> NoDate | Some x \<Rightarrow> DateNum x))"

definition get_post_datetime ::
  "(string \<Rightarrow> datetime option) \<Rightarrow> (real \<Rightarrow> datetime option) \<Rightarrow> post \<Rightarrow> datetime option" where
  "get_post_datetime strptime fromtimestamp row =
     (case date_field_of row of
        NoDate \<Rightarrow> None
      | DateStr s \<Rightarrow> strptime s
      | DateNum x \<Rightarrow> fromtimestamp x)"

text \<open>\<^verbatim>\<open>(now - post_date).days\<close>: whole days, rounded towards minus infinity.\<close>

definition diff_days :: "datetime \<Rightarrow> datetime \<Rightarrow> int" where
  "diff_days now post_date = (now - post_date) div 86400000000"

definition is_within_timeframe ::
  "(string \<Rightarrow> datetime option) \<Rightarrow> (real \<Rightarrow> datetime option) \<Rightarrow> datetime \<Rightarrow> string
     \<Rightarrow> post \<Rightarrow> bool" where
  "is_within_timeframe strptime fromtimestamp now recency_filter row =
     (case get_post_datetime strptime fromtimestamp row of
        None \<Rightarrow> True
      | Some post_date \<Rightarrow>
          (if recency_filter = ''Today'' then diff_days now post_date = 0
           else if recency_filter = ''Last week'' then diff_days now post_date \<le> 7
           else if recency_filter = ''Last month'' then diff_days now post_date \<le> 30
           else if recency_filter = ''All time'' then True
           else if recency_filter = ''More than a month'' then True
           else True))"

definition filter_posts_by_recency ::
  "(string \<Rightarrow> datetime option) \<Rightarrow> (real \<Rightarrow> datetime option) \<Rightarrow> datetime \<Rightarrow> post list
     \<Rightarrow> string \<Rightarrow> post list" where
  "filter_posts_by_recency strptime fromtimestamp now df recency_filter =
     (if df = [] then df
      else filter (is_within_timeframe strptime fromtimestamp now recency_filter) df)"

section \<open>Example posts\<close>

text \<open>A post with the given title and an empty body.\<close>

definition post_titled :: "string \<Rightarrow> post" where
  "post_titled t =
     \<lparr>post_id = ''t3_1'', title = Some t, body = '''', author = ''penpal_fan'',
      created_time = ''2025-08-24 22:32:22'', created_utc = Some 1756074742\<rparr>"

text \<open>A post whose title is missing.\<close>

definition post_untitled :: post where
  "post_untitled = (post_titled '''')\<lparr>title := None\<rparr>"

text \<open>A post with the given id, author and formatted timestamp.\<close>

definition post_by :: "string \<Rightarrow> string \<Rightarrow> string \<Rightarrow> post" where
  "post_by pid who time =
     \<lparr>post_id = pid, title = Some ''Looking for a penpal'', body = '''', author = who,
      created_time = time, created_utc = None\<rparr>"


text \<open>
  A listing that holds two posts and no second page: a request without a cursor returns
  them, up to the batch size, together with no next cursor.
\<close>

definition small_listing :: "string listing" where
  "small_listing n limit after =
     (if after = None then (take limit [''a'', ''b''], None) else ([], None))"

text \<open>Parsers that know one timestamp and reject every other string.\<close>

definition example_strptime :: "string \<Rightarrow> datetime option" where
  "example_strptime s = (if s = ''2025-08-24 22:32:22'' then Some 1756074742000000 else None)"

definition example_fromtimestamp :: "real \<Rightarrow> datetime option" where
  "example_fromtimestamp x = (if 0 \<le> x then Some (\<lfloor>x\<rfloor> * 1000000) else None)"

section \<open>Facts about the regular expressions\<close>

lemma lower_suffixes:
  "py_lower ''ing'' = ''ing''" "py_lower ''ed'' = ''ed''" "py_lower ''er'' = ''er''"
  "py_lower ''s'' = ''s''" "py_lower ''ly'' = ''ly''"
  by (simp_all add: py_lower_def lower_char_def)

lemma ends_Seq_nonempty:
  "(ends (Seq r s) t i \<noteq> []) = (\<exists>j\<in>set (ends r t i). ends s t j \<noteq> [])"
  by auto

lemma ends_Lit_ex:
  "(\<exists>j\<in>set (ends (Lit s) t k). P j) =
     (py_lower (take (length s) (drop k t)) = py_lower s \<and> P (k + length s))"
  by (simp add: py_lower_def)

lemma ends_Alt_ex:
  "(\<exists>j\<in>set (ends (Alt r s) t k). P j) =
     ((\<exists>j\<in>set (ends r t k). P j) \<or> (\<exists>j\<in>set (ends s t k). P j))"
  by auto

lemma ends_Opt_ex:
  "(\<exists>j\<in>set (ends (Opt r) t k). P j) = ((\<exists>j\<in>set (ends r t k). P j) \<or> P k)"
  by auto

lemma ends_NotAfterWord_ex:
  "(\<exists>j\<in>set (ends NotAfterWord t i). P j) = (\<not> word_before t i \<and> P i)"
  by simp

lemma ends_NotBeforeWord_nonempty:
  "(ends NotBeforeWord t i \<noteq> []) = (\<not> word_at t i)"
  by simp

lemma ends_WordBoundary_nonempty:
  "(ends WordBoundary t i \<noteq> []) = word_boundary t i"
  by (simp add: word_boundary_def)

lemma ends_opt_suffix_ex:
  "(\<exists>j\<in>set (ends (Opt suffix_group) t k). P j) =
     (\<exists>s\<in>set ['''', ''ing'', ''ed'', ''er'', ''s'', ''ly''].
        py_lower (take (length s) (drop k t)) = s \<and> P (k + length s))"
proof -
  have "(\<exists>j\<in>set (ends (Opt suffix_group) t k). P j) =
     ((py_lower (take (length ''ing'') (drop k t)) = ''ing'' \<and> P (k + length ''ing'')) \<or>
      (py_lower (take (length ''ed'') (drop k t)) = ''ed'' \<and> P (k + length ''ed'')) \<or>
      (py_lower (take (length ''er'') (drop k t)) = ''er'' \<and> P (k + length ''er'')) \<or>
      (py_lower (take (length ''s'') (drop k t)) = ''s'' \<and> P (k + length ''s'')) \<or>
      (py_lower (take (length ''ly'') (drop k t)) = ''ly'' \<and> P (k + length ''ly'')) \<or>
      P k)"
    unfolding suffix_group_def
    by (simp only: ends_Opt_ex ends_Alt_ex ends_Lit_ex lower_suffixes disj_assoc)
  moreover have "py_lower (take (length ([]::string)) (drop k t)) = [] \<and>
      P (k + length ([]::string)) \<longleftrightarrow> P k"
    by (simp add: py_lower_def)
  ultimately show ?thesis
    by (simp only: list.set bex_simps) blast
qed

text \<open>The two patterns meet the acceptance conditions of the specification.\<close>

lemma long_pattern_refines:
  assumes "4 \<le> length word"
  shows "re_search (pattern word) t = prefix_word_accepts word t"
  unfolding re_search_def prefix_word_accepts_def pattern_def list_ex_iff re_escape_def
  using assms
  by (simp only: if_True ends_Seq_nonempty ends_NotAfterWord_ex ends_Lit_ex
        ends_opt_suffix_ex ends_WordBoundary_nonempty)

lemma short_pattern_refines:
  assumes "length word < 4"
  shows "re_search (pattern word) t = whole_word_accepts word t"
proof -
  from assms have "\<not> 4 \<le> length word" by simp
  then show ?thesis
    unfolding re_search_def whole_word_accepts_def pattern_def list_ex_iff re_escape_def
    by (simp only: if_False ends_Seq_nonempty ends_NotAfterWord_ex ends_Lit_ex
          ends_NotBeforeWord_nonempty)
qed

lemma any_word_matches_single:
  "any_word_matches {word} t = re_search (pattern word) t"
  by (simp add: any_word_matches_def)

lemma any_word_matches_empty: "\<not> any_word_matches {} t"
  by (simp add: any_word_matches_def)

section \<open>The matcher\<close>

text \<open>
  Claim C2. For the single keyword "golf" the pattern, and with it the free-text match of
  the keyword list ["golf"], accepts a text exactly when the text holds an occurrence of
  "golf" (ignoring case) that no word character precedes, optionally followed by one of
  ing, ed, er, s, ly, and ending at a word boundary. It accepts "golfing", "golfed",
  "golfer", "golfs" and "golfly", and rejects "golfcart" and "mongolf".
\<close>

theorem golf_pattern_accepts:
  "re_search (pattern ''golf'') t = prefix_word_accepts ''golf'' t \<and>
   regular_match [''golf''] t = prefix_word_accepts ''golf'' t \<and>
   re_search (pattern ''golf'') ''golfing'' \<and>
   re_search (pattern ''golf'') ''golfed'' \<and>
   re_search (pattern ''golf'') ''golfer'' \<and>
   re_search (pattern ''golf'') ''golfs'' \<and>
   re_search (pattern ''golf'') ''golfly'' \<and>
   \<not> re_search (pattern ''golf'') ''golfcart'' \<and>
   \<not> re_search (pattern ''golf'') ''mongolf''"
proof -
  have general: "re_search (pattern ''golf'') t = prefix_word_accepts ''golf'' t"
    by (rule long_pattern_refines) simp
  have "words_to_highlight [''golf''] = {''golf''}"
    by code_simp
  then have "regular_match [''golf''] t = re_search (pattern ''golf'') t"
    by (simp add: regular_match_def any_word_matches_single)
  with general have keyword: "regular_match [''golf''] t = prefix_word_accepts ''golf'' t"
    by simp
  have e1: "re_search (pattern ''golf'') ''golfing''" by code_simp
  have e2: "re_search (pattern ''golf'') ''golfed''" by code_simp
  have e3: "re_search (pattern ''golf'') ''golfer''" by code_simp
  have e4: "re_search (pattern ''golf'') ''golfs''" by code_simp
  have e5: "re_search (pattern ''golf'') ''golfly''" by code_simp
  have e6: "\<not> re_search (pattern ''golf'') ''golfcart''" by code_simp
  have e7: "\<not> re_search (pattern ''golf'') ''mongolf''" by code_simp
  from general keyword e1 e2 e3 e4 e5 e6 e7 show ?thesis
    by (intro conjI)
qed

theorem golf_pattern_accepts_witness:
  "regular_match [''golf''] ''We went GOLFING on Sunday'' \<and>
   \<not> regular_match [''golf''] ''a golfcart ride''"
proof -
  have "prefix_word_accepts ''golf'' ''We went GOLFING on Sunday''"
    by code_simp
  with golf_pattern_accepts [of "''We went GOLFING on Sunday''"]
  have accepted: "regular_match [''golf''] ''We went GOLFING on Sunday''"
    by simp
  have "\<not> prefix_word_accepts ''golf'' ''a golfcart ride''"
    by code_simp
  with golf_pattern_accepts [of "''a golfcart ride''"]
  have "\<not> regular_match [''golf''] ''a golfcart ride''"
    by simp
  with accepted show ?thesis
    by (rule conjI)
qed





text \<open>
  Claim C3 (as amended). The keyword "at" is a stop word, so the free-text match of the
  keyword list ["at"] rejects every text and every post. The pattern that is built for
  the two-character word "at", which the age path searches because it removes no stop
  word, accepts a text exactly when the text holds "at" (ignoring case) as a standalone
  token, with no word character on either side; it rejects "cat" and "ate".
\<close>

theorem stop_word_at_matches:
  "\<not> regular_match [''at''] t \<and>
   \<not> has_keyword_match [''at''] [] row \<and>
   re_search (pattern ''at'') t = whole_word_accepts ''at'' t \<and>
   age_match [''at''] t = whole_word_accepts ''at'' t \<and>
   \<not> re_search (pattern ''at'') ''cat'' \<and>
   \<not> re_search (pattern ''at'') ''ate''"
proof -
  have "words_to_highlight [''at''] = {}"
    by code_simp
  then have free: "\<not> regular_match [''at''] u" for u
    by (simp add: regular_match_def any_word_matches_empty)
  then have row: "\<not> has_keyword_match [''at''] [] row"
    by (simp add: has_keyword_match_def)
  have token: "re_search (pattern ''at'') t = whole_word_accepts ''at'' t"
    by (rule short_pattern_refines) simp
  have "age_words_to_highlight [''at''] = {''at''}"
    by code_simp
  then have "age_match [''at''] t = re_search (pattern ''at'') t"
    by (simp add: age_match_def any_word_matches_single)
  with token have age: "age_match [''at''] t = whole_word_accepts ''at'' t"
    by simp
  have e1: "\<not> re_search (pattern ''at'') ''cat''" by code_simp
  have e2: "\<not> re_search (pattern ''at'') ''ate''" by code_simp
  from free [of t] row token age e1 e2 show ?thesis
    by (intro conjI)
qed

theorem stop_word_at_matches_witness:
  "\<not> regular_match [''at''] ''meet me at noon'' \<and> age_match [''at''] ''meet me AT noon''"
proof -
  have "whole_word_accepts ''at'' ''meet me AT noon''"
    by code_simp
  with stop_word_at_matches [of "''meet me AT noon''"]
  have "age_match [''at''] ''meet me AT noon''"
    by simp
  with stop_word_at_matches [of "''meet me at noon''"] show ?thesis
    by simp
qed

text \<open>
  The text "meet me at noon" holds the standalone token "at", and the free-text match of
  the keyword "at" rejects it.
\<close>

theorem stop_word_at_counterexample:
  "whole_word_accepts ''at'' ''meet me at noon'' \<and>
   \<not> has_keyword_match [''at''] [] (post_titled ''meet me at noon'')"
proof -
  have "whole_word_accepts ''at'' ''meet me at noon''"
    by code_simp
  moreover have "\<not> has_keyword_match [''at''] [] (post_titled ''meet me at noon'')"
    by code_simp
  ultimately show ?thesis
    by (rule conjI)
qed


section \<open>Facts about the data-frame operations\<close>



lemma mset_sort_values_desc [simp]: "mset (sort_values_desc col xs) = mset xs"
  by (simp add: sort_values_desc_def)

















section \<open>Deduplication\<close>











section \<open>Sorting the results\<close>

text \<open>
  Claim C6 (as amended). Sorting by title returns the posts of the input in ascending
  order of the sort key: the title with surrounding white space removed, without its
  leading "[" when more than that one character is left, in lower case. For the titles
  "[25F] hello" and "Apple seeks friend" the keys are "25f] hello" and
  "apple seeks friend", so the sorted order is "[25F] hello" first, in whichever order
  the two posts arrive.
\<close>

theorem sort_by_title:
  "sorted (map (\<lambda>p. get_sort_key (title p)) (sort_results df ''Title Alphabetically'')) \<and>
   mset (sort_results df ''Title Alphabetically'') = mset df \<and>
   get_sort_key (Some ''[25F] hello'') = ''25f] hello'' \<and>
   get_sort_key (Some ''Apple seeks friend'') = ''apple seeks friend'' \<and>
   map title (sort_results [post_titled ''[25F] hello'', post_titled ''Apple seeks friend'']
      ''Title Alphabetically'') = [Some ''[25F] hello'', Some ''Apple seeks friend''] \<and>
   map title (sort_results [post_titled ''Apple seeks friend'', post_titled ''[25F] hello'']
      ''Title Alphabetically'') = [Some ''[25F] hello'', Some ''Apple seeks friend'']"
proof -
  have s: "sorted (map (\<lambda>p. get_sort_key (title p)) (sort_results df ''Title Alphabetically''))"
    by (simp add: sort_results_def sort_values_asc_def)
  have m: "mset (sort_results df ''Title Alphabetically'') = mset df"
    by (simp add: sort_results_def sort_values_asc_def)
  have k1: "get_sort_key (Some ''[25F] hello'') = ''25f] hello''"
    by code_simp
  have k2: "get_sort_key (Some ''Apple seeks friend'') = ''apple seeks friend''"
    by code_simp
  have e1: "map title (sort_results [post_titled ''[25F] hello'', post_titled ''Apple seeks friend'']
      ''Title Alphabetically'') = [Some ''[25F] hello'', Some ''Apple seeks friend'']"
    by code_simp
  have e2: "map title (sort_results [post_titled ''Apple seeks friend'', post_titled ''[25F] hello'']
      ''Title Alphabetically'') = [Some ''[25F] hello'', Some ''Apple seeks friend'']"
    by code_simp
  from s m k1 k2 e1 e2 show ?thesis
    by (intro conjI)
qed

theorem sort_by_title_witness:
  "sorted (map (\<lambda>p. get_sort_key (title p))
     (sort_results [post_titled ''Zoe here'', post_titled ''[30M] hi'', post_titled ''  anna'']
        ''Title Alphabetically'')) \<and>
   map title
     (sort_results [post_titled ''Zoe here'', post_titled ''[30M] hi'', post_titled ''  anna'']
        ''Title Alphabetically'') = [Some ''[30M] hi'', Some ''  anna'', Some ''Zoe here'']"
proof -
  have "map title
     (sort_results [post_titled ''Zoe here'', post_titled ''[30M] hi'', post_titled ''  anna'']
        ''Title Alphabetically'') = [Some ''[30M] hi'', Some ''  anna'', Some ''Zoe here'']"
    by code_simp
  with sort_by_title
    [of "[post_titled ''Zoe here'', post_titled ''[30M] hi'', post_titled ''  anna'']"]
  show ?thesis
    by simp
qed

text \<open>
  The order that the specification gives for its two titles is not the order of the code.
\<close>

theorem sort_by_title_counterexample:
  "map title (sort_results [post_titled ''[25F] hello'', post_titled ''Apple seeks friend'']
      ''Title Alphabetically'') \<noteq> [Some ''Apple seeks friend'', Some ''[25F] hello'']"
  by code_simp

text \<open>
  Claim C7. A post with a missing title gets the empty sort key, which is the least key:
  it is placed before the titled post, not after it.
\<close>

theorem missing_title_sorts_first:
  "get_sort_key None = '''' \<and>
   map title (sort_results [post_titled ''Apple seeks friend'', post_untitled]
      ''Title Alphabetically'') = [None, Some ''Apple seeks friend'']"
proof -
  have "get_sort_key None = ''''"
    by (simp add: get_sort_key_def)
  moreover have "map title (sort_results [post_titled ''Apple seeks friend'', post_untitled]
      ''Title Alphabetically'') = [None, Some ''Apple seeks friend'']"
    by code_simp
  ultimately show ?thesis
    by (rule conjI)
qed

section \<open>The fetch loop\<close>

text \<open>
  Claim C8. Asked for five posts from a listing of two posts with no second page, the
  loop does not stop at the batch that comes with no cursor: it issues three requests, each
  without a cursor, and returns the two posts repeated.
\<close>

theorem fetch_continues_without_cursor:
  "fetch_penpals_posts (Some ''token'') small_listing 5 =
     ([''a'', ''b'', ''a'', ''b'', ''a''], [(5, None), (3, None), (1, None)])"
  by code_simp

section \<open>Pagination\<close>






section \<open>The recency filter\<close>

text \<open>
  Claim C10. A post whose date cannot be parsed passes the time test under every setting
  of the filter, so the filter keeps every such post of its input, in order; the filter
  has no error result.
\<close>

theorem unparsable_date_kept:
  "(get_post_datetime strptime fromtimestamp row = None \<longrightarrow>
      is_within_timeframe strptime fromtimestamp now recency_filter row \<and>
      (row \<in> set df \<longrightarrow>
         row \<in> set (filter_posts_by_recency strptime fromtimestamp now df recency_filter))) \<and>
   filter (\<lambda>r. get_post_datetime strptime fromtimestamp r = None)
     (filter_posts_by_recency strptime fromtimestamp now df recency_filter) =
   filter (\<lambda>r. get_post_datetime strptime fromtimestamp r = None) df"
proof (intro conjI impI)
  assume none: "get_post_datetime strptime fromtimestamp row = None"
  then show within: "is_within_timeframe strptime fromtimestamp now recency_filter row"
    by (simp add: is_within_timeframe_def)
  assume "row \<in> set df"
  with within show
    "row \<in> set (filter_posts_by_recency strptime fromtimestamp now df recency_filter)"
    by (auto simp: filter_posts_by_recency_def)
next
  have "filter (\<lambda>r. get_post_datetime strptime fromtimestamp r = None)
      (filter (is_within_timeframe strptime fromtimestamp now recency_filter) df) =
    filter (\<lambda>r. get_post_datetime strptime fromtimestamp r = None) df"
    unfolding filter_filter
    by (rule filter_cong) (auto simp: is_within_timeframe_def)
  then show "filter (\<lambda>r. get_post_datetime strptime fromtimestamp r = None)
     (filter_posts_by_recency strptime fromtimestamp now df recency_filter) =
   filter (\<lambda>r. get_post_datetime strptime fromtimestamp r = None) df"
    by (simp add: filter_posts_by_recency_def)
qed

theorem unparsable_date_kept_witness:
  "get_post_datetime example_strptime example_fromtimestamp
     (post_by ''p9'' ''carol'' ''last Tuesday'') = None \<and>
   post_by ''p9'' ''carol'' ''last Tuesday'' \<in>
     set [post_by ''p8'' ''dave'' ''2025-08-24 22:32:22'', post_by ''p9'' ''carol'' ''last Tuesday''] \<and>
   post_by ''p9'' ''carol'' ''last Tuesday'' \<in>
     set (filter_posts_by_recency example_strptime example_fromtimestamp 1767225600000000
       [post_by ''p8'' ''dave'' ''2025-08-24 22:32:22'', post_by ''p9'' ''carol'' ''last Tuesday'']
       ''Today'') \<and>
   post_by ''p8'' ''dave'' ''2025-08-24 22:32:22'' \<notin>
     set (filter_posts_by_recency example_strptime example_fromtimestamp 1767225600000000
       [post_by ''p8'' ''dave'' ''2025-08-24 22:32:22'', post_by ''p9'' ''carol'' ''last Tuesday'']
       ''Today'')"
proof -
  have none: "get_post_datetime example_strptime example_fromtimestamp
     (post_by ''p9'' ''carol'' ''last Tuesday'') = None"
    by code_simp
  have inp: "post_by ''p9'' ''carol'' ''last Tuesday'' \<in>
     set [post_by ''p8'' ''dave'' ''2025-08-24 22:32:22'', post_by ''p9'' ''carol'' ''last Tuesday'']"
    by simp
  have old: "post_by ''p8'' ''dave'' ''2025-08-24 22:32:22'' \<notin>
     set (filter_posts_by_recency example_strptime example_fromtimestamp 1767225600000000
       [post_by ''p8'' ''dave'' ''2025-08-24 22:32:22'', post_by ''p9'' ''carol'' ''last Tuesday'']
       ''Today'')"
    by code_simp
  from unparsable_date_kept [of example_strptime example_fromtimestamp
      "post_by ''p9'' ''carol'' ''last Tuesday''"
      1767225600000000 "''Today''"
      "[post_by ''p8'' ''dave'' ''2025-08-24 22:32:22'', post_by ''p9'' ''carol'' ''last Tuesday'']"]
    none inp
  have "post_by ''p9'' ''carol'' ''last Tuesday'' \<in>
     set (filter_posts_by_recency example_strptime example_fromtimestamp 1767225600000000
       [post_by ''p8'' ''dave'' ''2025-08-24 22:32:22'', post_by ''p9'' ''carol'' ''last Tuesday'']
       ''Today'')"
    by blast
  with none inp old show ?thesis
    by (intro conjI)
qed

end
